theory Spec2Isabelle
  imports Complex_Main
begin

section \<open>Python runtime notions used by scad\_tool.py\<close>

text \<open>
  Python \<open>float\<close> values are modelled by the real numbers they denote: arithmetic is
  exact, and there is no NaN, infinity or negative zero. Python \<open>int\<close> is \<open>int\<close>,
  \<open>str\<close> is \<open>string\<close>.
\<close>

subsection \<open>Strings\<close>

text \<open>\<open>sep.join(parts)\<close>\<close>

fun join :: "string \<Rightarrow> string list \<Rightarrow> string" where
  "join sep [] = []"
| "join sep [x] = x"
| "join sep (x # y # ys) = x @ sep @ join sep (y # ys)"

text \<open>\<open>s.split(c)\<close> for a one-character separator: never returns an empty list.\<close>

fun split_on :: "char \<Rightarrow> string \<Rightarrow> string list" where
  "split_on c [] = [[]]"
| "split_on c (x # xs) =
     (if x = c then [] # split_on c xs
      else (case split_on c xs of [] \<Rightarrow> [[x]] | p # ps \<Rightarrow> (x # p) # ps))"

text \<open>\<open>s.rstrip(chars)\<close>: drops the longest suffix made of characters of \<open>chars\<close>.\<close>

definition rstrip :: "string \<Rightarrow> string \<Rightarrow> string" where
  "rstrip chars s = rev (dropWhile (\<lambda>c. c \<in> set chars) (rev s))"

text \<open>\<open>s.replace(a, b)\<close> for one-character \<open>a\<close> and \<open>b\<close>.\<close>

definition replace_char :: "char \<Rightarrow> char \<Rightarrow> string \<Rightarrow> string" where
  "replace_char a b s = map (\<lambda>c. if c = a then b else c) s"

subsection \<open>Number formatting\<close>

definition digit_char :: "nat \<Rightarrow> char" where
  "digit_char d = ''0123456789'' ! (d mod 10)"

text \<open>\<open>str(n)\<close> for a non-negative integer.\<close>

fun dec :: "nat \<Rightarrow> string" where
  "dec n = (if n < 10 then [digit_char n] else dec (n div 10) @ [digit_char (n mod 10)])"

declare dec.simps [simp del]

text \<open>Rounding to the nearest integer, ties to even, as the \<open>f\<close> format does.\<close>

definition round_half_even :: "real \<Rightarrow> int" where
  "round_half_even x =
     (let f = \<lfloor>x\<rfloor>; d = x - of_int f
      in if d < 1 / 2 then f
         else if 1 / 2 < d then f + 1
         else if even f then f else f + 1)"

text \<open>The digits of \<open>n\<close> padded with zeros on the left to width \<open>p\<close>.\<close>

definition zero_pad :: "nat \<Rightarrow> nat \<Rightarrow> string" where
  "zero_pad p n = replicate (p - length (dec n)) (CHR ''0'') @ dec n"

text \<open>\<open>f"{v:.pf}"\<close>: sign, integer part, and \<open>p\<close> fractional digits.\<close>

definition fmt_fixed :: "nat \<Rightarrow> real \<Rightarrow> string" where
  "fmt_fixed p v =
     (let n = nat (round_half_even (\<bar>v\<bar> * 10 ^ p));
          ip = n div 10 ^ p;
          fp = n mod 10 ^ p
      in (if v < 0 then ''-'' else '''') @ dec ip
         @ (if p = 0 then '''' else ''.'' @ zero_pad p fp))"

section \<open>Camera math\<close>

type_synonym vec3 = "real \<times> real \<times> real"

text \<open>The six numbers \<open>[*eye, *center]\<close> of \<open>camera_string\<close>.\<close>

definition camera_vals :: "vec3 \<Rightarrow> real \<Rightarrow> real list" where
  "camera_vals direction distance =
     (case direction of (dx, dy, dz) \<Rightarrow>
        [dx * distance, dy * distance, dz * distance] @ [0, 0, 0])"

definition camera_string :: "vec3 \<Rightarrow> real \<Rightarrow> string" where
  "camera_string direction distance =
     join '','' (map (fmt_fixed 3) (camera_vals direction distance))"

definition radians :: "real \<Rightarrow> real" where
  "radians d = d * pi / 180"

definition direction_from_angles :: "real \<Rightarrow> real \<Rightarrow> vec3" where
  "direction_from_angles az_deg el_deg =
     (let az = radians az_deg; el = radians el_deg
      in (cos el * cos az, cos el * sin az, sin el))"

definition label_from_value :: "real \<Rightarrow> string" where
  "label_from_value v =
     (let sign = (if v < 0 then ''m'' else '''');
          val = \<bar>v\<bar>;
          text0 = rstrip ''.'' (rstrip ''0'' (fmt_fixed 1 val));
          text1 = (if text0 = [] then ''0'' else text0)
      in sign @ replace_char (CHR ''.'') (CHR ''p'') text1)"


section \<open>Fixed tables\<close>

type_synonym shot = "string \<times> string"

definition OPENSCAD_BIN :: string where
  "OPENSCAD_BIN = ''/Applications/OpenSCAD.app/Contents/MacOS/OpenSCAD''"

definition PRESETS :: "(string \<times> shot list) list" where
  "PRESETS =
     [(''single'', [(''iso'', ''0,0,0,55,0,25,0'')]),
      (''iso'',
        [(''iso_ne'', ''0,0,0,55,0,45,0''),
         (''iso_nw'', ''0,0,0,55,0,135,0''),
         (''iso_sw'', ''0,0,0,55,0,225,0''),
         (''iso_se'', ''0,0,0,55,0,315,0'')]),
      (''ortho'',
        [(''front'', ''0,0,0,90,0,0,0''),
         (''back'', ''0,0,0,90,0,180,0''),
         (''left'', ''0,0,0,90,0,270,0''),
         (''right'', ''0,0,0,90,0,90,0''),
         (''top'', ''0,0,0,0,0,0,0''),
         (''bottom'', ''0,0,0,180,0,0,0'')]),
      (''standard'',
        [(''front'', ''0,0,0,90,0,0,0''),
         (''back'', ''0,0,0,90,0,180,0''),
         (''left'', ''0,0,0,90,0,270,0''),
         (''right'', ''0,0,0,90,0,90,0''),
         (''top'', ''0,0,0,0,0,0,0''),
         (''bottom'', ''0,0,0,180,0,0,0''),
         (''iso'', ''0,0,0,55,0,25,0'')])]"

definition VIEW_DIRECTIONS :: "(string \<times> vec3) list" where
  "VIEW_DIRECTIONS =
     [(''iso'', (1, 1, 1)),
      (''front'', (0, -1, 0)),
      (''back'', (0, 1, 0)),
      (''left'', (-1, 0, 0)),
      (''right'', (1, 0, 0)),
      (''top'', (0, 0, 1)),
      (''bottom'', (0, 0, -1))]"

section \<open>Capability probing\<close>

fun starts_with :: "string \<Rightarrow> string \<Rightarrow> bool" where
  "starts_with [] s = True"
| "starts_with (x # xs) [] = False"
| "starts_with (x # xs) (y # ys) = (x = y \<and> starts_with xs ys)"

text \<open>\<open>needle in hay\<close> on strings.\<close>

fun contains :: "string \<Rightarrow> string \<Rightarrow> bool" where
  "contains needle [] = (needle = [])"
| "contains needle (h # hs) = (starts_with needle (h # hs) \<or> contains needle hs)"

definition known_flags :: "string list" where
  "known_flags =
     [''--render'', ''--backend'', ''--camera'', ''--imgsize'',
      ''--viewall'', ''--autocenter'', ''--projection'',
      ''--view'', ''--colorscheme'']"

definition detect_flags :: "string \<Rightarrow> (string \<rightharpoonup> bool)" where
  "detect_flags help_text = map_of (map (\<lambda>flag. (flag, contains flag help_text)) known_flags)"

section \<open>Arguments, environment and effects\<close>

datatype subcommand = Validate | Stl | Screenshots

text \<open>
  The namespace that \<open>argparse\<close> hands to \<open>main\<close>. An option that was not given
  is \<open>None\<close>; options with a default always carry a value.
\<close>

record args =
  openscad :: "string option"
  command :: subcommand
  input :: string
  out_dir :: "string option"
  output_path :: "string option"
  define_opts :: "string list"
  keep :: bool
  preset :: "string option"
  views :: "string option"
  angles :: "string option"
  turntable :: "int option"
  elevation :: real
  az_start :: real
  distance :: real
  width :: int
  height :: int
  projection :: "string option"
  colorscheme :: "string option"
  view_opts :: "string option"

text \<open>
  What the script reads from its surroundings, and the library functions it calls
  whose results depend on the platform. \<open>subprocess_run cmd\<close> is \<open>None\<close> when
  \<open>subprocess.run\<close> raises, otherwise the return code, standard output and standard
  error of the child; \<open>pyfloat s\<close> is \<open>None\<close> when \<open>float(s)\<close> raises.
\<close>

record world =
  environ_openscad_bin :: "string option"
  scad_home :: string
  path_exists :: "string \<Rightarrow> bool"
  expanduser :: "string \<Rightarrow> string"
  path_stem :: "string \<Rightarrow> string"
  path_join :: "string \<Rightarrow> string \<Rightarrow> string"
  temp_name :: "string \<Rightarrow> string \<Rightarrow> string \<Rightarrow> string"
  st_size :: "string \<Rightarrow> nat option"
  subprocess_run :: "string list \<Rightarrow> (int \<times> string \<times> string) option"
  pyfloat :: "string \<Rightarrow> real option"

datatype exn =
    ValueError string
  | FloatValueError string
  | OSError
  | KeyError

text \<open>
  How the process ends: \<open>Exit n\<close> is \<open>sys.exit(n)\<close> (also what \<open>main\<close> returning
  \<open>n\<close> leads to), \<open>Uncaught e\<close> an exception that nothing handles.
\<close>

datatype outcome = Exit int | Uncaught exn

text \<open>What the process does that can be observed: lines printed and children launched.\<close>

datatype event = Print string | Spawn "string list"

type_synonym 'a io = "event list \<times> (outcome + 'a)"

definition io_return :: "'a \<Rightarrow> 'a io" where
  "io_return x = ([], Inr x)"

definition io_stop :: "outcome \<Rightarrow> 'a io" where
  "io_stop oc = ([], Inl oc)"

definition io_emit :: "event \<Rightarrow> unit io" where
  "io_emit e = ([e], Inr ())"

definition io_bind :: "'a io \<Rightarrow> ('a \<Rightarrow> 'b io) \<Rightarrow> 'b io" where
  "io_bind m f =
     (case m of
        (es, Inl oc) \<Rightarrow> (es, Inl oc)
      | (es, Inr x) \<Rightarrow> (case f x of (es', r) \<Rightarrow> (es @ es', r)))"

definition io_seq :: "unit io \<Rightarrow> 'b io \<Rightarrow> 'b io" where
  "io_seq m k = io_bind m (\<lambda>_. k)"

text \<open>Python truthiness of an optional string: neither \<open>None\<close> nor empty.\<close>

fun truthy :: "string option \<Rightarrow> bool" where
  "truthy None = False"
| "truthy (Some s) = (s \<noteq> [])"

text \<open>The value of an optional argument where the code has tested it to be present.\<close>

fun str_of :: "string option \<Rightarrow> string" where
  "str_of None = []"
| "str_of (Some s) = s"

text \<open>An optional integer as a truth test sees it: \<open>None\<close> and \<open>0\<close> are both false.\<close>

fun int_of :: "int option \<Rightarrow> int" where
  "int_of None = 0"
| "int_of (Some n) = n"

section \<open>Helpers of the script\<close>

definition find_openscad :: "world \<Rightarrow> string option" where
  "find_openscad w =
     (case environ_openscad_bin w of
        Some env \<Rightarrow>
          if env \<noteq> [] \<and> path_exists w env then Some env
          else if path_exists w OPENSCAD_BIN then Some OPENSCAD_BIN else None
      | None \<Rightarrow> if path_exists w OPENSCAD_BIN then Some OPENSCAD_BIN else None)"

definition load_help_text :: "world \<Rightarrow> string \<Rightarrow> string io" where
  "load_help_text w bin =
     io_seq (io_emit (Spawn [bin, ''--help'']))
       (case subprocess_run w [bin, ''--help''] of
          None \<Rightarrow> io_return ''''
        | Some (rc, out, err) \<Rightarrow> io_return (out @ err))"

text \<open>\<open>shlex.quote\<close>\<close>

definition safe_char :: "char \<Rightarrow> bool" where
  "safe_char c =
     (c \<in> set ''abcdefghijklmnopqrstuvwxyzABCDEFGHIJKLMNOPQRSTUVWXYZ0123456789_@%+=:,./-'')"

definition shlex_quote :: "string \<Rightarrow> string" where
  "shlex_quote s =
     (if s = [] then [CHR 0x27, CHR 0x27]
      else if list_all safe_char s then s
      else [CHR 0x27]
           @ concat (map (\<lambda>c. if c = CHR 0x27
                                 then [CHR 0x27, CHR 0x22, CHR 0x27, CHR 0x22, CHR 0x27]
                                 else [c]) s)
           @ [CHR 0x27])"

definition run :: "world \<Rightarrow> string list \<Rightarrow> unit io" where
  "run w cmd =
     io_seq (io_emit (Print (''+ '' @ join '' '' (map shlex_quote cmd))))
       (io_seq (io_emit (Spawn cmd))
          (case subprocess_run w cmd of
             None \<Rightarrow> io_stop (Uncaught OSError)
           | Some (rc, out, err) \<Rightarrow> if rc \<noteq> 0 then io_stop (Exit rc) else io_return ()))"

definition add_defines :: "string list \<Rightarrow> string list \<Rightarrow> string list" where
  "add_defines cmd defs = cmd @ concat (map (\<lambda>d. [''-D'', d]) defs)"

definition ensure_scad_file :: "world \<Rightarrow> string \<Rightarrow> string io" where
  "ensure_scad_file w path =
     (let p = expanduser w path
      in if \<not> path_exists w p
         then io_seq (io_emit (Print (''Input SCAD not found: '' @ p))) (io_stop (Exit 1))
         else io_return p)"

text \<open>\<open>supports.get(flag)\<close> used as a condition.\<close>

definition supported :: "(string \<rightharpoonup> bool) \<Rightarrow> string \<Rightarrow> bool" where
  "supported supports flag = (supports flag = Some True)"

text \<open>The part of every command line that the three subcommands share.\<close>

definition base_cmd :: "string \<Rightarrow> (string \<rightharpoonup> bool) \<Rightarrow> string list \<Rightarrow> string list" where
  "base_cmd bin supports defs =
     add_defines
       ([bin]
        @ (if supported supports ''--render'' then [''--render''] else [])
        @ (if supported supports ''--backend'' then [''--backend'', ''Manifold''] else []))
       defs"

section \<open>Parsing the angle list\<close>

text \<open>The characters that \<open>str.strip()\<close> removes, among the first 256 code points.\<close>

definition is_space :: "char \<Rightarrow> bool" where
  "is_space c =
     (c \<in> {CHR 0x09, CHR 0x0A, CHR 0x0B, CHR 0x0C, CHR 0x0D,
            CHR 0x1C, CHR 0x1D, CHR 0x1E, CHR 0x1F, CHR 0x20, CHR 0x85, CHR 0xA0})"

definition strip :: "string \<Rightarrow> string" where
  "strip s = rev (dropWhile is_space (rev (dropWhile is_space s)))"

text \<open>\<open>part.split(":", 1)\<close> on a part that contains a colon.\<close>

definition split_first :: "char \<Rightarrow> string \<Rightarrow> string \<times> string" where
  "split_first c s = (takeWhile (\<lambda>x. x \<noteq> c) s, tl (dropWhile (\<lambda>x. x \<noteq> c) s))"

text \<open>The loop of \<open>parse_angles\<close> over the comma-separated parts, in order.\<close>

fun parse_parts :: "(string \<Rightarrow> real option) \<Rightarrow> string list \<Rightarrow> exn + (real \<times> real) list" where
  "parse_parts pf [] = Inr []"
| "parse_parts pf (raw # rest) =
     (let part = strip raw
      in if part = [] then parse_parts pf rest
         else if CHR '':'' \<notin> set part
         then Inl (ValueError (''Invalid angle '' @ [CHR 0x27] @ part @ [CHR 0x27]
                               @ '', expected az:el''))
         else (case split_first (CHR '':'') part of (az_str, el_str) \<Rightarrow>
                 (case pf az_str of
                    None \<Rightarrow> Inl (FloatValueError az_str)
                  | Some az \<Rightarrow>
                      (case pf el_str of
                         None \<Rightarrow> Inl (FloatValueError el_str)
                       | Some el \<Rightarrow>
                           (case parse_parts pf rest of
                              Inl e \<Rightarrow> Inl e
                            | Inr others \<Rightarrow> Inr ((az, el) # others))))))"

definition parse_angles :: "(string \<Rightarrow> real option) \<Rightarrow> string \<Rightarrow> exn + (real \<times> real) list" where
  "parse_angles pf v = parse_parts pf (split_on (CHR '','') v)"

section \<open>Choosing the shots\<close>

definition angle_shot :: "real \<Rightarrow> real \<times> real \<Rightarrow> shot" where
  "angle_shot dst p =
     (case p of (az, el) \<Rightarrow>
        (''az'' @ label_from_value az @ ''_el'' @ label_from_value el,
         camera_string (direction_from_angles az el) dst))"

text \<open>The step and the number of shots of a turntable sweep.\<close>

definition turntable_step :: "int \<Rightarrow> int" where
  "turntable_step t = (let step = \<bar>t\<bar> in if step = 0 then 1 else step)"

definition turntable_count :: "int \<Rightarrow> int" where
  "turntable_count step = max 1 \<lfloor>(360 :: real) / of_int step\<rfloor>"

definition turntable_az :: "real \<Rightarrow> int \<Rightarrow> nat \<Rightarrow> real" where
  "turntable_az start step i = start + of_int (int i * step)"

definition turntable_shot :: "args \<Rightarrow> int \<Rightarrow> nat \<Rightarrow> shot" where
  "turntable_shot a step i =
     (let az = turntable_az (az_start a) step i
      in (''tt_az'' @ label_from_value az @ ''_el'' @ label_from_value (elevation a),
          camera_string (direction_from_angles az (elevation a)) (distance a)))"

definition turntable_shots :: "args \<Rightarrow> int \<Rightarrow> shot list" where
  "turntable_shots a t =
     (let step = turntable_step t; count = turntable_count step
      in map (turntable_shot a step) [0 ..< nat count])"

text \<open>The loop over the named views: an unknown name is reported and skipped.\<close>

fun view_shots :: "real \<Rightarrow> string list \<Rightarrow> shot list io" where
  "view_shots dst [] = io_return []"
| "view_shots dst (view # rest) =
     (case map_of VIEW_DIRECTIONS view of
        None \<Rightarrow>
          io_seq (io_emit (Print (''Unknown view '' @ [CHR 0x27] @ view @ [CHR 0x27]
                                  @ '', skipping'')))
            (view_shots dst rest)
      | Some direction \<Rightarrow>
          io_bind (view_shots dst rest)
            (\<lambda>others. io_return ((view, camera_string direction dst) # others)))"

definition view_names :: "string \<Rightarrow> string list" where
  "view_names v = filter (\<lambda>s. s \<noteq> []) (map strip (split_on (CHR '','') v))"

text \<open>
  The \<open>if\<close>/\<open>elif\<close> chain of \<open>cmd_screenshots\<close> that fills \<open>shots\<close>. The tests are
  Python truth tests: an empty string and the step \<open>0\<close> count as absent.
\<close>

definition select_shots :: "world \<Rightarrow> args \<Rightarrow> shot list io" where
  "select_shots w a =
     (if truthy (angles a) then
        (case parse_angles (pyfloat w) (str_of (angles a)) of
           Inl e \<Rightarrow> io_stop (Uncaught e)
         | Inr pairs \<Rightarrow> io_return (map (angle_shot (distance a)) pairs))
      else if int_of (turntable a) \<noteq> 0 then
        io_return (turntable_shots a (int_of (turntable a)))
      else if truthy (views a) then
        view_shots (distance a) (view_names (str_of (views a)))
      else if truthy (preset a) then
        (case map_of PRESETS (str_of (preset a)) of
           Some (s # ss) \<Rightarrow> io_return (s # ss)
         | _ \<Rightarrow>
             io_seq (io_emit (Print (''Unknown preset '' @ [CHR 0x27] @ str_of (preset a)
                                     @ [CHR 0x27] @ ''. Available: ''
                                     @ join '', '' (map fst PRESETS))))
               (io_stop (Exit 1)))
      else (case map_of PRESETS ''single'' of
              Some ss \<Rightarrow> io_return ss
            | None \<Rightarrow> io_stop (Uncaught KeyError)))"

section \<open>The subcommands\<close>

text \<open>
  Creating directories and creating or deleting the scratch file leave no event; they
  are taken to succeed.
\<close>

definition str_int :: "int \<Rightarrow> string" where
  "str_int i = (if i < 0 then ''-'' @ dec (nat (- i)) else dec (nat i))"

text \<open>\<open>f"{n:,}"\<close>: the digits in groups of three, from the right.\<close>

fun group3 :: "string \<Rightarrow> string" where
  "group3 (a # b # c # d # rest) = a # b # c # CHR '','' # group3 (d # rest)"
| "group3 s = s"

definition fmt_thousands :: "nat \<Rightarrow> string" where
  "fmt_thousands n = rev (group3 (rev (dec n)))"

definition cmd_validate :: "world \<Rightarrow> args \<Rightarrow> string \<Rightarrow> (string \<rightharpoonup> bool) \<Rightarrow> unit io" where
  "cmd_validate w a bin supports =
     io_bind (ensure_scad_file w (input a)) (\<lambda>scad_file.
       let dir = expanduser w (if truthy (out_dir a) then str_of (out_dir a)
                               else path_join w (scad_home w) ''tmp'');
           tmp_path = temp_name w (path_stem w scad_file @ ''_validate_'') ''.stl'' dir;
           cmd = base_cmd bin supports (define_opts a) @ [''-o'', tmp_path, scad_file]
       in io_seq (run w cmd)
            (if keep a
             then io_emit (Print (''Validation output kept at '' @ tmp_path))
             else io_emit (Print ''Validation succeeded'')))"

definition cmd_stl :: "world \<Rightarrow> args \<Rightarrow> string \<Rightarrow> (string \<rightharpoonup> bool) \<Rightarrow> unit io" where
  "cmd_stl w a bin supports =
     io_bind (ensure_scad_file w (input a)) (\<lambda>scad_file.
       let out_path = expanduser w
                        (if truthy (output_path a) then str_of (output_path a)
                         else path_join w (path_join w (scad_home w) ''outputs'')
                                (path_stem w scad_file @ ''.stl''));
           cmd = base_cmd bin supports (define_opts a) @ [''-o'', out_path, scad_file]
       in io_seq (run w cmd)
            (case st_size w out_path of
               None \<Rightarrow> io_stop (Uncaught OSError)
             | Some n \<Rightarrow>
                 io_emit (Print (''STL saved: '' @ out_path @ '' ('' @ fmt_thousands n
                                 @ '' bytes)''))))"

text \<open>The command line for one shot.\<close>

definition shot_cmd ::
  "world \<Rightarrow> args \<Rightarrow> string \<Rightarrow> (string \<rightharpoonup> bool) \<Rightarrow> string \<Rightarrow> string \<Rightarrow> string \<Rightarrow> string list" where
  "shot_cmd w a bin supports scad_file out_file camera =
     base_cmd bin supports (define_opts a)
     @ (if supported supports ''--autocenter'' then [''--autocenter''] else [])
     @ (if supported supports ''--viewall'' then [''--viewall''] else [])
     @ (if supported supports ''--camera'' then [''--camera='' @ camera] else [])
     @ (if supported supports ''--imgsize''
        then [''--imgsize='' @ str_int (width a) @ '','' @ str_int (height a)] else [])
     @ (if supported supports ''--colorscheme''
        then [''--colorscheme='' @ (if truthy (colorscheme a) then str_of (colorscheme a)
                                    else ''Cornfield'')] else [])
     @ (if supported supports ''--projection''
        then [''--projection='' @ (if truthy (projection a) then str_of (projection a)
                                   else ''p'')] else [])
     @ (if truthy (view_opts a) \<and> supported supports ''--view''
        then [''--view='' @ str_of (view_opts a)] else [])
     @ [''-o'', out_file, scad_file]"

text \<open>The loop over the shots: one child per shot, stopping at the first that fails.\<close>

fun capture_all ::
  "world \<Rightarrow> args \<Rightarrow> string \<Rightarrow> (string \<rightharpoonup> bool) \<Rightarrow> string \<Rightarrow> string \<Rightarrow> shot list \<Rightarrow> unit io" where
  "capture_all w a bin supports scad_file dir [] = io_return ()"
| "capture_all w a bin supports scad_file dir ((label, camera) # rest) =
     (let out_file = path_join w dir (path_stem w scad_file @ ''_'' @ label @ ''.png'')
      in io_seq (io_emit (Print (''  Capturing: '' @ label)))
           (io_seq (run w (shot_cmd w a bin supports scad_file out_file camera))
              (io_seq (io_emit (Print (''    -> '' @ out_file)))
                 (capture_all w a bin supports scad_file dir rest))))"

definition cmd_screenshots :: "world \<Rightarrow> args \<Rightarrow> string \<Rightarrow> (string \<rightharpoonup> bool) \<Rightarrow> unit io" where
  "cmd_screenshots w a bin supports =
     io_bind (ensure_scad_file w (input a)) (\<lambda>scad_file.
       let dir = expanduser w
                   (if truthy (out_dir a) then str_of (out_dir a)
                    else path_join w (path_join w (scad_home w) ''renders'')
                           (path_stem w scad_file))
       in io_bind (select_shots w a) (\<lambda>shots.
            if shots = [] then io_emit (Print ''No screenshot views generated'')
            else
              io_seq (io_emit (Print (''Taking '' @ dec (length shots)
                                      @ '' screenshot(s) of: '' @ scad_file)))
                (io_seq (io_emit (Print (''Output directory: '' @ dir)))
                   (io_seq (io_emit (Print ''''))
                      (io_seq (capture_all w a bin supports scad_file dir shots)
                         (io_seq (io_emit (Print ''''))
                            (io_emit (Print ''Screenshots complete!''))))))))"

section \<open>The entry point\<close>

definition main :: "world \<Rightarrow> args \<Rightarrow> int io" where
  "main w a =
     (case (if truthy (openscad a) then openscad a else find_openscad w) of
        None \<Rightarrow>
          io_seq (io_emit (Print ''OpenSCAD not found. Install OpenSCAD.app or set OPENSCAD_BIN.''))
            (io_return 1)
      | Some bin \<Rightarrow>
          io_bind (load_help_text w bin) (\<lambda>help_text.
            let supports = detect_flags help_text
            in io_seq
                 (case command a of
                    Validate \<Rightarrow> cmd_validate w a bin supports
                  | Stl \<Rightarrow> cmd_stl w a bin supports
                  | Screenshots \<Rightarrow> cmd_screenshots w a bin supports)
                 (io_return 0)))"

text \<open>\<open>sys.exit(main())\<close>: the events of a whole run and how it ends.\<close>

definition script :: "world \<Rightarrow> args \<Rightarrow> event list \<times> outcome" where
  "script w a =
     (case main w a of
        (es, Inl oc) \<Rightarrow> (es, oc)
      | (es, Inr code) \<Rightarrow> (es, Exit code))"

text \<open>The commands that a run launched, in order.\<close>

definition spawned :: "event list \<Rightarrow> string list list" where
  "spawned es = concat (map (\<lambda>e. case e of Spawn cmd \<Rightarrow> [cmd] | Print _ \<Rightarrow> []) es)"

section \<open>Concrete inputs\<close>

text \<open>The namespace of a subcommand run with only \<open>--in\<close>: the defaults of the parser.\<close>

definition default_args :: "subcommand \<Rightarrow> string \<Rightarrow> args" where
  "default_args c f =
     \<lparr> openscad = None, command = c, input = f, out_dir = None, output_path = None,
       define_opts = [], keep = False, preset = None, views = None, angles = None,
       turntable = None, elevation = 25, az_start = 0, distance = 200,
       width = 1024, height = 1024, projection = None, colorscheme = None,
       view_opts = None \<rparr>"

definition is_digit :: "char \<Rightarrow> bool" where
  "is_digit c = (c \<in> set ''0123456789'')"

definition digit_val :: "char \<Rightarrow> nat" where
  "digit_val c = of_char c - 48"

text \<open>The number that a string of decimal digits denotes.\<close>

definition undec :: "string \<Rightarrow> nat" where
  "undec s = foldl (\<lambda>acc c. 10 * acc + digit_val c) 0 s"

text \<open>
  A machine for the examples: the renderer is installed at its default path and always
  succeeds without output, \<open>m.scad\<close> exists, paths are joined with a slash, and
  \<open>float\<close> is given on strings of decimal digits only (the examples use no other
  literal; every other string is taken to raise).
\<close>

definition sample_world :: world where
  "sample_world =
     \<lparr> environ_openscad_bin = None,
       scad_home = ''/home/u/.scad'',
       path_exists = (\<lambda>p. p = OPENSCAD_BIN \<or> p = ''m.scad''),
       expanduser = (\<lambda>p. p),
       path_stem = (\<lambda>p. takeWhile (\<lambda>c. c \<noteq> CHR ''.'') p),
       path_join = (\<lambda>p q. p @ ''/'' @ q),
       temp_name = (\<lambda>prefix suffix dir. dir @ ''/'' @ prefix @ ''tmp'' @ suffix),
       st_size = (\<lambda>p. Some 0),
       subprocess_run = (\<lambda>cmd. Some (0, '''', '''')),
       pyfloat = (\<lambda>s. if s \<noteq> [] \<and> list_all is_digit s then Some (real (undec s)) else None) \<rparr>"

section \<open>What the specification asks of a camera string\<close>





section \<open>Decimal digits\<close>











section \<open>The shape of a label\<close>





section \<open>The capability prober\<close>

lemma starts_with_iff: "starts_with n h \<longleftrightarrow> (\<exists>s. h = n @ s)"
  by (induction n h rule: starts_with.induct) auto

lemma contains_iff: "contains n h \<longleftrightarrow> (\<exists>p s. h = p @ n @ s)"
proof (induction h)
  case Nil
  then show ?case by auto
next
  case (Cons x xs)
  show ?case
  proof
    assume "contains n (x # xs)"
    then consider "starts_with n (x # xs)" | "contains n xs" by auto
    then show "\<exists>p s. x # xs = p @ n @ s"
    proof cases
      case 1
      then obtain s where "x # xs = n @ s" by (auto simp: starts_with_iff)
      then have "x # xs = [] @ n @ s" by simp
      then show ?thesis by blast
    next
      case 2
      then obtain p s where "xs = p @ n @ s" using Cons.IH by auto
      then have "x # xs = (x # p) @ n @ s" by simp
      then show ?thesis by blast
    qed
  next
    assume "\<exists>p s. x # xs = p @ n @ s"
    then obtain p s where eq: "x # xs = p @ n @ s" by blast
    show "contains n (x # xs)"
    proof (cases p)
      case Nil
      with eq have "starts_with n (x # xs)" by (auto simp: starts_with_iff)
      then show ?thesis by simp
    next
      case (Cons y ys)
      with eq have "xs = ys @ n @ s" by simp
      then have "contains n xs" using Cons.IH by blast
      then show ?thesis by simp
    qed
  qed
qed

text \<open>
  C9. Whatever the help text, the prober returns a mapping whose keys are exactly the nine
  known flags, and each flag is mapped to true exactly when it occurs in the help text
  as a substring.
\<close>

theorem detect_flags_spec:
  "dom (detect_flags h) =
     {''--render'', ''--backend'', ''--camera'', ''--imgsize'', ''--viewall'',
      ''--autocenter'', ''--projection'', ''--view'', ''--colorscheme''}
   \<and> card (dom (detect_flags h)) = 9
   \<and> (\<forall>f \<in> dom (detect_flags h). detect_flags h f = Some (\<exists>p s. h = p @ f @ s))"
proof -
  have d: "dom (detect_flags h) = set known_flags"
    by (simp add: detect_flags_def dom_map_of_conv_image_fst image_image)
  have k: "set known_flags =
      {''--render'', ''--backend'', ''--camera'', ''--imgsize'', ''--viewall'',
       ''--autocenter'', ''--projection'', ''--view'', ''--colorscheme''}"
    by (simp add: known_flags_def)
  have c: "card (set known_flags) = 9"
    by (simp add: known_flags_def)
  have v: "detect_flags h f = Some (contains f h)" if "f \<in> set known_flags" for f
    using that unfolding detect_flags_def
    by (simp add: map_of_map_restrict restrict_map_def)
  show ?thesis using d k c v by (simp add: contains_iff)
qed

text \<open>A help text that mentions \<open>--camera\<close> and not \<open>--viewall\<close>.\<close>

theorem detect_flags_spec_witness:
  "detect_flags ''  --camera arg    camera parameters'' ''--camera'' = Some True
   \<and> detect_flags ''  --camera arg    camera parameters'' ''--viewall'' = Some False"
proof -
  let ?h = "''  --camera arg    camera parameters''"
  have m: "''--camera'' \<in> dom (detect_flags ?h)" "''--viewall'' \<in> dom (detect_flags ?h)"
    using detect_flags_spec [of ?h] by simp_all
  have a: "detect_flags ?h ''--camera'' = Some (contains ''--camera'' ?h)"
    using detect_flags_spec [of ?h] m(1) by (simp add: contains_iff)
  have b: "detect_flags ?h ''--viewall'' = Some (contains ''--viewall'' ?h)"
    using detect_flags_spec [of ?h] m(2) by (simp add: contains_iff)
  show ?thesis unfolding a b by simp
qed

section \<open>The turntable sweep\<close>

lemma turntable_count_div: "turntable_count step = max 1 (360 div step)"
proof -
  have "\<lfloor>(360 :: real) / of_int step\<rfloor> = \<lfloor>real_of_int 360 / of_int step\<rfloor>" by simp
  also have "\<dots> = 360 div step" by (rule floor_divide_of_int_eq)
  finally show ?thesis by (simp add: turntable_count_def)
qed

lemma turntable_step_eq: "turntable_step t = max 1 \<bar>t\<bar>"
  by (simp add: turntable_step_def Let_def)




text \<open>
  C1. A turntable request with step 0 does not reach the turntable branch: with no other
  mode given, the shot list is the single isometric preset shot, not 360 shots. The
  body of the branch, had it been entered with step 0, clamps the step to 1 and makes
  360 shots.
\<close>

theorem turntable_zero_falls_through:
  "select_shots sample_world ((default_args Screenshots ''m.scad'')\<lparr>turntable := Some 0\<rparr>)
     = ([], Inr [(''iso'', ''0,0,0,55,0,25,0'')])
   \<and> turntable_step 0 = 1
   \<and> length (turntable_shots ((default_args Screenshots ''m.scad'')\<lparr>turntable := Some 0\<rparr>) 0)
       = 360"
  by (simp add: select_shots_def default_args_def PRESETS_def io_return_def
      turntable_shots_def Let_def turntable_step_eq turntable_count_div)




section \<open>Presets\<close>

text \<open>
  C7. When the preset is the mode in force (no angle list, no turntable, no view list),
  the preset \<open>standard\<close> gives exactly seven shots, in the order front, back, left, right,
  top, bottom, iso.
\<close>

theorem preset_standard_shots:
  assumes "\<not> truthy (angles a)" and "turntable a = None" and "\<not> truthy (views a)"
    and "preset a = Some ''standard''"
  shows "\<exists>ss. select_shots w a = ([], Inr ss) \<and> length ss = 7
           \<and> map fst ss = [''front'', ''back'', ''left'', ''right'', ''top'', ''bottom'', ''iso'']"
  using assms by (simp add: select_shots_def PRESETS_def io_return_def)

theorem preset_standard_shots_witness:
  "\<exists>ss. select_shots sample_world
           ((default_args Screenshots ''m.scad'')\<lparr>preset := Some ''standard''\<rparr>) = ([], Inr ss)
        \<and> length ss = 7
        \<and> map fst ss = [''front'', ''back'', ''left'', ''right'', ''top'', ''bottom'', ''iso'']"
proof -
  let ?a = "(default_args Screenshots ''m.scad'')\<lparr>preset := Some ''standard''\<rparr>"
  have h: "\<not> truthy (angles ?a)" "turntable ?a = None" "\<not> truthy (views ?a)"
    "preset ?a = Some ''standard''"
    by (simp_all add: default_args_def)
  show ?thesis using preset_standard_shots [OF h, of sample_world] .
qed

section \<open>Camera strings\<close>

lemma split_on_nonempty: "split_on c xs \<noteq> []"
  by (induction xs) (auto split: list.splits)























section \<open>Labels\<close>







lemma tail_not_digit:
  "takeWhile is_digit (if m = 0 then '''' else ''p'' @ [digit_char m]) = []"
  by (simp add: is_digit_def)










section \<open>Locating the renderer\<close>

lemma spawned_append: "spawned (xs @ ys) = spawned xs @ spawned ys"
  by (simp add: spawned_def)

lemma spawned_simps:
  "spawned [] = []"
  "spawned (Print s # es) = spawned es"
  "spawned (Spawn c # es) = c # spawned es"
  by (simp_all add: spawned_def)

text \<open>
  C10, as the code has it. When no override is given (or it is empty), the path in the
  environment variable is unset, empty or does not exist, and the default path does not
  exist, the run prints the guidance message and ends with exit code 1; nothing else
  happens, so no child is launched. A non-empty override is used without any check.
\<close>

theorem missing_binary_exit:
  assumes "\<not> truthy (openscad a)"
    and "\<not> (truthy (environ_openscad_bin w) \<and> path_exists w (str_of (environ_openscad_bin w)))"
    and "\<not> path_exists w OPENSCAD_BIN"
  shows "script w a =
           ([Print ''OpenSCAD not found. Install OpenSCAD.app or set OPENSCAD_BIN.''], Exit 1)
         \<and> spawned (fst (script w a)) = []"
proof -
  have f: "find_openscad w = None"
    using assms(2,3) by (cases "environ_openscad_bin w") (auto simp: find_openscad_def)
  have "script w a =
           ([Print ''OpenSCAD not found. Install OpenSCAD.app or set OPENSCAD_BIN.''], Exit 1)"
    using assms(1) f by (simp add: script_def main_def io_seq_def io_bind_def io_emit_def io_return_def)
  then show ?thesis by (simp add: spawned_simps)
qed

text \<open>A machine on which no path exists.\<close>

theorem missing_binary_exit_witness:
  "script (sample_world\<lparr>path_exists := (\<lambda>p. False)\<rparr>) (default_args Validate ''m.scad'') =
     ([Print ''OpenSCAD not found. Install OpenSCAD.app or set OPENSCAD_BIN.''], Exit 1)"
proof -
  let ?w = "sample_world\<lparr>path_exists := (\<lambda>p. False)\<rparr>"
  let ?a = "default_args Validate ''m.scad''"
  have h: "\<not> truthy (openscad ?a)"
    "\<not> (truthy (environ_openscad_bin ?w) \<and> path_exists ?w (str_of (environ_openscad_bin ?w)))"
    "\<not> path_exists ?w OPENSCAD_BIN"
    by (simp_all add: default_args_def sample_world_def)
  show ?thesis using missing_binary_exit [OF h] by simp
qed

text \<open>
  An override that does not exist, with the environment variable unset and the default
  path missing: the run goes on to the help probe and to the render command, and ends
  with the exception of the failed launch, without the guidance message.
\<close>

theorem unusable_override_counterexample:
  "\<not> path_exists (sample_world\<lparr>path_exists := (\<lambda>p. p = ''m.scad''), subprocess_run := (\<lambda>cmd. None)\<rparr>) ''/nope''
   \<and> find_openscad (sample_world\<lparr>path_exists := (\<lambda>p. p = ''m.scad''), subprocess_run := (\<lambda>cmd. None)\<rparr>) = None
   \<and> script (sample_world\<lparr>path_exists := (\<lambda>p. p = ''m.scad''), subprocess_run := (\<lambda>cmd. None)\<rparr>)
        ((default_args Stl ''m.scad'')\<lparr>openscad := Some ''/nope''\<rparr>)
      = ([Spawn [''/nope'', ''--help''],
          Print ''+ /nope -o /home/u/.scad/outputs/m.stl m.scad'',
          Spawn [''/nope'', ''-o'', ''/home/u/.scad/outputs/m.stl'', ''m.scad'']],
         Uncaught OSError)"
  by (simp add: sample_world_def default_args_def find_openscad_def OPENSCAD_BIN_def script_def
      main_def load_help_text_def io_seq_def io_bind_def io_emit_def io_return_def io_stop_def
      cmd_stl_def ensure_scad_file_def Let_def run_def base_cmd_def add_defines_def
      detect_flags_def known_flags_def supported_def shlex_quote_def safe_char_def)

section \<open>A malformed angle list\<close>









section \<open>The priority of the modes\<close>










end
